theory Spec2Isabelle
  imports Complex_Main
begin

section \<open>Data model of \<open>main.py\<close>\<close>

text \<open>
  The pydantic models. \<open>Student\<close> and \<open>Course\<close> extend their base model with the
  field \<open>id\<close>; the fields \<open>name\<close> and \<open>id\<close> occur in two models each (and \<open>id\<close> is
  a constant of HOL), so they carry the name of their model as a suffix.
  \<open>Enrollment\<close> adds nothing to \<open>EnrollmentBase\<close>. Python's \<open>int\<close> is \<open>int\<close> and
  \<open>Optional[t]\<close> is \<open>t option\<close>. The type of a grade, Python's \<open>float\<close>, is the type
  variable \<open>'f\<close>: the handlers store a grade and hand it back as it is, and nothing is
  assumed of its values. The field \<open>email\<close> of a \<open>StudentBase\<close> holds the value that
  the validation of its type \<open>EmailStr\<close> has produced.
\<close>

record StudentBase =
  name_Student :: string
  email :: string

record Student = StudentBase +
  id_Student :: int

record CourseBase =
  name_Course :: string
  instructor :: string
  prerequisites :: "string list option"

record Course = CourseBase +
  id_Course :: int

record 'f EnrollmentBase =
  student_id :: int
  course_id :: int
  grade :: "'f option"

type_synonym 'f Enrollment = "'f EnrollmentBase"

text \<open>
  What a request can raise: \<open>HTTPException(status_code, detail)\<close> in a handler, the
  errors of Python itself on \<open>data[0]\<close> of an empty list and on adding \<open>None\<close> to a
  number, and the error of the framework for a body that fails the validation of its
  model, raised before the handler is called.
\<close>

datatype error = HTTPException int string | IndexError | TypeError | RequestValidationError

text \<open>A JSON value of a response, and a response dictionary with its keys in order.\<close>

datatype 'f json = Num 'f | Str string

type_synonym 'f response = "(string \<times> 'f json) list"

section \<open>What the libraries compute\<close>

text \<open>
  The handlers use two things that are no functions on exact values and whose code is
  not in the repository: the validation of pydantic's \<open>EmailStr\<close>, which rejects a
  string or returns an address that need not be the string it was given, and Python's
  arithmetic on floats, which rounds at every step and can overflow. They are parameters
  of the model, and every statement below holds whatever they compute:
  \<^item> \<open>EmailStr\<close>: the validated address of a string, \<open>None\<close> for a string that is
    rejected;
  \<^item> \<open>float_zero\<close>: the literal \<open>0.0\<close>;
  \<^item> \<open>builtin_sum\<close>: \<open>sum\<close> of a sequence of grades;
  \<^item> \<open>true_div\<close>: \<open>/\<close> of a float by the length of a list;
  \<^item> \<open>builtin_round\<close>: \<open>round(x, ndigits)\<close>.
\<close>

record 'f runtime =
  EmailStr :: "string \<Rightarrow> string option"
  float_zero :: 'f
  builtin_sum :: "'f list \<Rightarrow> 'f"
  true_div :: "'f \<Rightarrow> nat \<Rightarrow> 'f"
  builtin_round :: "'f \<Rightarrow> int \<Rightarrow> 'f"

section \<open>The data store\<close>

text \<open>
  The three tables the handlers name, \<open>students\<close>, \<open>courses\<close> and \<open>enrollments\<close>,
  each a list of rows in the store's order, and the two identity sequences of the store.
\<close>

record 'f db =
  students :: "Student list"
  courses :: "Course list"
  enrollments :: "'f Enrollment list"
  student_seq :: int
  course_seq :: int

text \<open>
  Modelled from the spec: the client of the external store (\<open>supabase\<close>) is not part of
  the repository. The spec describes it as a table-oriented store "supporting insert,
  select-with-equality-filters, update, delete per named table" that "owns durability,
  identity assignment" and enforces no uniqueness constraint of its own.
  \<open>select_rows p t\<close> is \<open>select("*")\<close> with the filters \<open>p\<close>: the matching rows.
\<close>

definition select_rows :: "('r \<Rightarrow> bool) \<Rightarrow> 'r list \<Rightarrow> 'r list" where
  "select_rows p t = filter p t"

text \<open>
  Modelled from the spec: \<open>delete()\<close> with the filters \<open>p\<close> removes the matching rows
  and keeps every other row; no matching row is no error.
\<close>

definition delete_rows :: "('r \<Rightarrow> bool) \<Rightarrow> 'r list \<Rightarrow> 'r list" where
  "delete_rows p t = filter (\<lambda>r. \<not> p r) t"

text \<open>
  Modelled from the spec: \<open>update(f)\<close> with the filters \<open>p\<close> rewrites the matching rows
  in place; its \<open>data\<close> are the rewritten rows.
\<close>

definition update_rows :: "('r \<Rightarrow> bool) \<Rightarrow> ('r \<Rightarrow> 'r) \<Rightarrow> 'r list \<Rightarrow> 'r list \<times> 'r list" where
  "update_rows p f t = (map f (filter p t), map (\<lambda>r. if p r then f r else r) t)"

text \<open>
  Modelled from the spec: \<open>insert(row)\<close> stores the row after the others; its \<open>data\<close>
  is the stored row. A student or a course gets its identity from the sequence of its
  table, an enrollment has no identity of its own.
\<close>

definition insert_student :: "StudentBase \<Rightarrow> 'f db \<Rightarrow> Student list \<times> 'f db" where
  "insert_student s d =
     (let row = \<lparr>name_Student = name_Student s, email = email s, id_Student = student_seq d\<rparr>
      in ([row], d\<lparr>students := students d @ [row], student_seq := student_seq d + 1\<rparr>))"

definition insert_course :: "CourseBase \<Rightarrow> 'f db \<Rightarrow> Course list \<times> 'f db" where
  "insert_course c d =
     (let row = \<lparr>name_Course = name_Course c, instructor = instructor c,
                 prerequisites = prerequisites c, id_Course = course_seq d\<rparr>
      in ([row], d\<lparr>courses := courses d @ [row], course_seq := course_seq d + 1\<rparr>))"

definition insert_enrollment ::
  "'f EnrollmentBase \<Rightarrow> 'f db \<Rightarrow> 'f Enrollment list \<times> 'f db" where
  "insert_enrollment e d = ([e], d\<lparr>enrollments := enrollments d @ [e]\<rparr>)"

text \<open>\<open>data[0]\<close>: the first row, \<open>IndexError\<close> on an empty list.\<close>

definition first_row :: "'r list \<Rightarrow> error + 'r" where
  "first_row data = (case data of [] \<Rightarrow> Inl IndexError | r # _ \<Rightarrow> Inr r)"

section \<open>The handlers\<close>

text \<open>
  A handler takes the store and its arguments and returns what it returns or raises,
  with the store as it has left it.
\<close>

subsection \<open>Students\<close>

definition create_student :: "'f db \<Rightarrow> StudentBase \<Rightarrow> (error + Student) \<times> 'f db" where
  "create_student d student =
     (let existing = select_rows (\<lambda>r. email r = email student) (students d) in
      if existing \<noteq> [] then (Inl (HTTPException 400 ''Email already exists''), d)
      else (let (data, d') = insert_student student d in (first_row data, d')))"

text \<open>
  The route \<open>POST /students/\<close> on a body with the fields \<open>name\<close> and \<open>email\<close>. The
  parameter \<open>student: StudentBase\<close> of the handler makes the framework build the model
  from the body before it calls the handler: a string that \<open>EmailStr\<close> rejects raises the
  validation error and the handler is not called; otherwise the handler gets the
  validated address in the field \<open>email\<close>.
\<close>

definition post_students ::
  "'f runtime \<Rightarrow> 'f db \<Rightarrow> string \<Rightarrow> string \<Rightarrow> (error + Student) \<times> 'f db" where
  "post_students rt d name' email' =
     (case EmailStr rt email' of
        None \<Rightarrow> (Inl RequestValidationError, d)
      | Some validated \<Rightarrow> create_student d \<lparr>name_Student = name', email = validated\<rparr>)"

definition get_students :: "'f db \<Rightarrow> (error + Student list) \<times> 'f db" where
  "get_students d = (Inr (select_rows (\<lambda>r. True) (students d)), d)"

definition delete_student :: "'f db \<Rightarrow> int \<Rightarrow> (error + 'f response) \<times> 'f db" where
  "delete_student d student_id' =
     (let d1 = d\<lparr>enrollments := delete_rows (\<lambda>r. student_id r = student_id') (enrollments d)\<rparr>;
          d2 = d1\<lparr>students := delete_rows (\<lambda>r. id_Student r = student_id') (students d1)\<rparr>
      in (Inr [(''message'', Str ''Student deleted'')], d2))"

subsection \<open>Courses\<close>

definition create_course :: "'f db \<Rightarrow> CourseBase \<Rightarrow> (error + Course) \<times> 'f db" where
  "create_course d course =
     (let (data, d') = insert_course course d in (first_row data, d'))"

definition get_courses :: "'f db \<Rightarrow> (error + Course list) \<times> 'f db" where
  "get_courses d = (Inr (select_rows (\<lambda>r. True) (courses d)), d)"

definition delete_course :: "'f db \<Rightarrow> int \<Rightarrow> (error + 'f response) \<times> 'f db" where
  "delete_course d course_id' =
     (let d1 = d\<lparr>enrollments := delete_rows (\<lambda>r. course_id r = course_id') (enrollments d)\<rparr>;
          d2 = d1\<lparr>courses := delete_rows (\<lambda>r. id_Course r = course_id') (courses d1)\<rparr>
      in (Inr [(''message'', Str ''Course deleted'')], d2))"

subsection \<open>Enrollments\<close>

definition create_enrollment ::
  "'f db \<Rightarrow> 'f EnrollmentBase \<Rightarrow> (error + 'f Enrollment) \<times> 'f db" where
  "create_enrollment d enrollment =
     (let student = select_rows (\<lambda>r. id_Student r = student_id enrollment) (students d);
          course = select_rows (\<lambda>r. id_Course r = course_id enrollment) (courses d)
      in if student = [] then (Inl (HTTPException 404 ''Student not found''), d)
         else if course = [] then (Inl (HTTPException 404 ''Course not found''), d)
         else (let existing = select_rows
                     (\<lambda>r. student_id r = student_id enrollment \<and> course_id r = course_id enrollment)
                     (enrollments d)
               in if existing \<noteq> []
                  then (Inl (HTTPException 400 ''Student already enrolled in this course''), d)
                  else (let (data, d') = insert_enrollment enrollment d
                        in (first_row data, d'))))"

text \<open>
  \<open>if student_id:\<close> is Python's truth test of an \<open>Optional[int]\<close>: \<open>None\<close> and \<open>0\<close>
  are false, every other integer is true.
\<close>

fun truthy :: "int option \<Rightarrow> bool" where
  "truthy None = False"
| "truthy (Some n) = (n \<noteq> 0)"

definition get_enrollments ::
  "'f db \<Rightarrow> int option \<Rightarrow> int option \<Rightarrow> (error + 'f Enrollment list) \<times> 'f db" where
  "get_enrollments d student_id' course_id' =
     (let query = (\<lambda>r. True);
          query = (case student_id' of
                     Some s \<Rightarrow> if truthy student_id' then (\<lambda>r. query r \<and> student_id r = s) else query
                   | None \<Rightarrow> query);
          query = (case course_id' of
                     Some c \<Rightarrow> if truthy course_id' then (\<lambda>r. query r \<and> course_id r = c) else query
                   | None \<Rightarrow> query)
      in (Inr (select_rows query (enrollments d)), d))"

definition update_grade ::
  "'f db \<Rightarrow> int \<Rightarrow> int \<Rightarrow> 'f \<Rightarrow> (error + 'f Enrollment) \<times> 'f db" where
  "update_grade d student_id' course_id' grade' =
     (let existing = select_rows (\<lambda>r. student_id r = student_id' \<and> course_id r = course_id')
                       (enrollments d)
      in if existing = [] then (Inl (HTTPException 404 ''Enrollment not found''), d)
         else (let (data, t) = update_rows
                      (\<lambda>r. student_id r = student_id' \<and> course_id r = course_id')
                      (\<lambda>r. r\<lparr>grade := Some grade'\<rparr>) (enrollments d)
               in (first_row data, d\<lparr>enrollments := t\<rparr>)))"

definition delete_enrollment ::
  "'f db \<Rightarrow> int \<Rightarrow> int \<Rightarrow> (error + 'f response) \<times> 'f db" where
  "delete_enrollment d student_id' course_id' =
     (Inr [(''message'', Str ''Enrollment deleted'')],
      d\<lparr>enrollments := delete_rows (\<lambda>r. student_id r = student_id' \<and> course_id r = course_id')
                          (enrollments d)\<rparr>)"

subsection \<open>The grade point average\<close>

text \<open>
  The values that the generator \<open>enrollment['grade'] for enrollment in data\<close> hands to
  \<open>sum\<close>, in the order of the rows; a \<open>None\<close> among them makes the addition in \<open>sum\<close>
  raise \<open>TypeError\<close>.
\<close>

fun grades_of :: "'f Enrollment list \<Rightarrow> error + 'f list" where
  "grades_of [] = Inr []"
| "grades_of (e # es) =
     (case grade e of
        None \<Rightarrow> Inl TypeError
      | Some g \<Rightarrow> (case grades_of es of Inl x \<Rightarrow> Inl x | Inr gs \<Rightarrow> Inr (g # gs)))"

definition calculate_gpa ::
  "'f runtime \<Rightarrow> 'f db \<Rightarrow> int \<Rightarrow> (error + 'f response) \<times> 'f db" where
  "calculate_gpa rt d student_id' =
     (let data = select_rows (\<lambda>r. student_id r = student_id' \<and> grade r \<noteq> None) (enrollments d)
      in if data = []
         then (Inr [(''gpa'', Num (float_zero rt)), (''message'', Str ''No grades found'')], d)
         else (case grades_of data of
                 Inl e \<Rightarrow> (Inl e, d)
               | Inr gs \<Rightarrow>
                   (let total_points = builtin_sum rt gs;
                        gpa = true_div rt total_points (length data)
                    in (Inr [(''gpa'', Num (builtin_round rt gpa 2))], d))))"

section \<open>The routes of the application\<close>

text \<open>
  The eleven routes that the decorators \<open>@app.post\<close>, \<open>@app.get\<close>, \<open>@app.put\<close> and
  \<open>@app.delete\<close> register, each with the arguments of its request. \<open>handle\<close> is the
  store after one request, \<open>run\<close> the store after a sequence of requests, served one
  after the other.
\<close>

datatype 'f request =
    CreateStudent string string
  | GetStudents
  | DeleteStudent int
  | CreateCourse CourseBase
  | GetCourses
  | DeleteCourse int
  | CreateEnrollment "'f EnrollmentBase"
  | GetEnrollments "int option" "int option"
  | UpdateGrade int int 'f
  | DeleteEnrollment int int
  | CalculateGpa int

fun handle :: "'f runtime \<Rightarrow> 'f db \<Rightarrow> 'f request \<Rightarrow> 'f db" where
  "handle rt d (CreateStudent n e) = snd (post_students rt d n e)"
| "handle rt d GetStudents = snd (get_students d)"
| "handle rt d (DeleteStudent i) = snd (delete_student d i)"
| "handle rt d (CreateCourse c) = snd (create_course d c)"
| "handle rt d GetCourses = snd (get_courses d)"
| "handle rt d (DeleteCourse i) = snd (delete_course d i)"
| "handle rt d (CreateEnrollment e) = snd (create_enrollment d e)"
| "handle rt d (GetEnrollments s c) = snd (get_enrollments d s c)"
| "handle rt d (UpdateGrade s c g) = snd (update_grade d s c g)"
| "handle rt d (DeleteEnrollment s c) = snd (delete_enrollment d s c)"
| "handle rt d (CalculateGpa i) = snd (calculate_gpa rt d i)"

definition run :: "'f runtime \<Rightarrow> 'f db \<Rightarrow> 'f request list \<Rightarrow> 'f db" where
  "run rt d rs = foldl (handle rt) d rs"

text \<open>The invariant of the enrollments: no two rows for the same pair of keys.\<close>

definition unique_enrollments :: "'f db \<Rightarrow> bool" where
  "unique_enrollments d = distinct (map (\<lambda>r. (student_id r, course_id r)) (enrollments d))"

text \<open>A store with no rows, its sequences starting at 1.\<close>

definition empty_db :: "'f db" where
  "empty_db = \<lparr>students = [], courses = [], enrollments = [], student_seq = 1, course_seq = 1\<rparr>"

text \<open>The pair of keys of an enrollment, its composite identity.\<close>

abbreviation key :: "'f Enrollment \<Rightarrow> int \<times> int" where
  "key r \<equiv> (student_id r, course_id r)"

section \<open>Values for the examples\<close>

text \<open>
  A store to run the handlers on: two students, three courses, and four enrollments, of
  which student 1 has the grades 3.0, 4.0 and none. In the examples a grade is a real
  number, the value of the float.
\<close>

definition example_db :: "real db" where
  "example_db =
     \<lparr>students =
        [\<lparr>name_Student = ''Ann'', email = ''ann@uni.example'', id_Student = 1\<rparr>,
         \<lparr>name_Student = ''Bob'', email = ''bob@uni.example'', id_Student = 2\<rparr>],
      courses =
        [\<lparr>name_Course = ''Logic'', instructor = ''Hall'', prerequisites = Some [], id_Course = 1\<rparr>,
         \<lparr>name_Course = ''Algebra'', instructor = ''Kim'', prerequisites = Some [''Logic''],
          id_Course = 2\<rparr>,
         \<lparr>name_Course = ''Topology'', instructor = ''Roy'', prerequisites = None, id_Course = 3\<rparr>],
      enrollments =
        [\<lparr>student_id = 1, course_id = 1, grade = Some 3\<rparr>,
         \<lparr>student_id = 1, course_id = 2, grade = Some 4\<rparr>,
         \<lparr>student_id = 1, course_id = 3, grade = None\<rparr>,
         \<lparr>student_id = 2, course_id = 1, grade = Some 1\<rparr>],
      student_seq = 3,
      course_seq = 4\<rparr>"

text \<open>
  Values of the parameters for the examples. They are the library's on the inputs of
  the examples and are not meant beyond them.

  For an address of the plain form \<open>local@domain\<close>, \<open>EmailStr\<close> returns the local part
  as it is and the domain in lower case; \<open>plain_address\<close> does so for a string with one
  \<open>@\<close>, a local part, no space, and a dot in the domain, and rejects every other string.
\<close>

definition lower_ascii :: "char \<Rightarrow> char" where
  "lower_ascii c =
     (case map_of (zip ''ABCDEFGHIJKLMNOPQRSTUVWXYZ'' ''abcdefghijklmnopqrstuvwxyz'') c of
        Some l \<Rightarrow> l
      | None \<Rightarrow> c)"

definition plain_address :: "string \<Rightarrow> string option" where
  "plain_address s =
     (let local = takeWhile (\<lambda>c. c \<noteq> CHR ''@'') s;
          domain = drop (Suc (length local)) s
      in if local \<noteq> [] \<and> length local < length s \<and> CHR ''@'' \<notin> set domain
            \<and> CHR ''.'' \<in> set domain \<and> CHR '' '' \<notin> set s
         then Some (local @ CHR ''@'' # map lower_ascii domain)
         else None)"

text \<open>
  The arithmetic of the examples is the exact one: the sum, the quotient, and the
  nearest multiple of \<open>10 ^ -ndigits\<close> with a tie going to the even one. Python's
  operations on floats give these values when no step of theirs has to round, as on the
  grades 3.0 and 4.0.
\<close>

definition round_half_even :: "real \<Rightarrow> int" where
  "round_half_even x =
     (let f = \<lfloor>x\<rfloor>; r = x - of_int f
      in if r < 1 / 2 then f else if 1 / 2 < r then f + 1 else if even f then f else f + 1)"

definition exact_round :: "real \<Rightarrow> int \<Rightarrow> real" where
  "exact_round x ndigits =
     (if 0 \<le> ndigits
      then of_int (round_half_even (x * 10 ^ nat ndigits)) / 10 ^ nat ndigits
      else of_int (round_half_even (x / 10 ^ nat (- ndigits))) * 10 ^ nat (- ndigits))"

definition example_runtime :: "real runtime" where
  "example_runtime =
     \<lparr>EmailStr = plain_address,
      float_zero = 0,
      builtin_sum = sum_list,
      true_div = (\<lambda>x n. x / of_nat n),
      builtin_round = exact_round\<rparr>"

section \<open>The store primitives\<close>

lemma select_rows_empty_iff: "select_rows p t = [] \<longleftrightarrow> \<not> (\<exists>r\<in>set t. p r)"
  by (simp add: select_rows_def filter_empty_conv)

lemma first_row_singleton: "first_row [r] = Inr r"
  by (simp add: first_row_def)

lemma update_rows_first:
  "\<exists>r\<in>set t. p r \<Longrightarrow> \<exists>r. p r \<and> first_row (fst (update_rows p f t)) = Inr (f r)"
  by (induction t) (auto simp: update_rows_def first_row_def)

lemma distinct_keys_delete_rows:
  "distinct (map key t) \<Longrightarrow> distinct (map key (delete_rows p t))"
  by (simp add: delete_rows_def distinct_map_filter)

lemma keys_update_rows:
  "map key (snd (update_rows p (\<lambda>r. r\<lparr>grade := g\<rparr>) t)) = map key t"
  by (simp add: update_rows_def comp_def if_distrib)

section \<open>The grade point average\<close>

text \<open>
  On rows that all carry a grade, nothing is raised and \<open>sum\<close> gets the grades of the
  rows, in their order.
\<close>

lemma grades_of_graded:
  "\<forall>r\<in>set rs. grade r \<noteq> None \<Longrightarrow> grades_of rs = Inr (List.map_filter grade rs)"
  by (induction rs) (auto simp: List.map_filter_simps split: option.splits)

lemma map_filter_graded:
  "List.map_filter grade (filter (\<lambda>r. student_id r = s \<and> grade r \<noteq> None) t)
     = List.map_filter grade (filter (\<lambda>r. student_id r = s) t)"
  by (induction t) (auto simp: List.map_filter_simps split: option.splits)

lemma length_graded:
  "length (filter (\<lambda>r. student_id r = s \<and> grade r \<noteq> None) t)
     = length (List.map_filter grade (filter (\<lambda>r. student_id r = s) t))"
  by (induction t) (auto simp: List.map_filter_simps split: option.splits)

lemma calculate_gpa_result:
  "calculate_gpa rt d s =
     (let gs = List.map_filter grade (filter (\<lambda>r. student_id r = s) (enrollments d))
      in (Inr (if gs = []
               then [(''gpa'', Num (float_zero rt)), (''message'', Str ''No grades found'')]
               else [(''gpa'',
                      Num (builtin_round rt (true_div rt (builtin_sum rt gs) (length gs)) 2))]),
          d))"
proof -
  define data where
    "data = select_rows (\<lambda>r. student_id r = s \<and> grade r \<noteq> None) (enrollments d)"
  define gs where
    "gs = List.map_filter grade (filter (\<lambda>r. student_id r = s) (enrollments d))"
  have "grades_of data = Inr (List.map_filter grade data)"
    by (rule grades_of_graded) (simp add: data_def select_rows_def)
  then have grades: "grades_of data = Inr gs"
    by (simp only: data_def gs_def select_rows_def map_filter_graded)
  have len: "length data = length gs"
    unfolding data_def gs_def select_rows_def by (rule length_graded)
  then have empty: "data = [] \<longleftrightarrow> gs = []"
    by (metis length_0_conv)
  have "calculate_gpa rt d s =
      (if data = []
       then (Inr [(''gpa'', Num (float_zero rt)), (''message'', Str ''No grades found'')], d)
       else (case grades_of data of
               Inl e \<Rightarrow> (Inl e, d)
             | Inr gs \<Rightarrow>
                 (Inr [(''gpa'', Num (builtin_round rt
                          (true_div rt (builtin_sum rt gs) (length data)) 2))], d)))"
    unfolding calculate_gpa_def data_def Let_def ..
  also have "\<dots> =
      (Inr (if gs = []
            then [(''gpa'', Num (float_zero rt)), (''message'', Str ''No grades found'')]
            else [(''gpa'',
                   Num (builtin_round rt (true_div rt (builtin_sum rt gs) (length gs)) 2))]),
       d)"
    by (simp only: grades len empty sum.case if_distrib [of "\<lambda>x. (Inr x, d)"])
  finally show ?thesis
    unfolding gs_def Let_def .
qed




section \<open>Students\<close>

lemma create_student_result:
  "create_student d s =
     (if \<exists>r\<in>set (students d). email r = email s
      then (Inl (HTTPException 400 ''Email already exists''), d)
      else (Inr \<lparr>name_Student = name_Student s, email = email s, id_Student = student_seq d\<rparr>,
            d\<lparr>students := students d @
                  [\<lparr>name_Student = name_Student s, email = email s, id_Student = student_seq d\<rparr>],
              student_seq := student_seq d + 1\<rparr>))"
  by (simp add: create_student_def insert_student_def select_rows_empty_iff
      first_row_singleton Let_def)

lemma post_students_result:
  "post_students rt d n e =
     (case EmailStr rt e of
        None \<Rightarrow> (Inl RequestValidationError, d)
      | Some v \<Rightarrow>
          if \<exists>r\<in>set (students d). email r = v
          then (Inl (HTTPException 400 ''Email already exists''), d)
          else (Inr \<lparr>name_Student = n, email = v, id_Student = student_seq d\<rparr>,
                d\<lparr>students := students d @
                      [\<lparr>name_Student = n, email = v, id_Student = student_seq d\<rparr>],
                  student_seq := student_seq d + 1\<rparr>))"
  by (simp add: post_students_def create_student_result split: option.splits)

text \<open>The address that \<open>plain_address\<close> returns for the strings of the examples.\<close>

lemma plain_address_examples:
  "plain_address ''cy@UNI.Example'' = Some ''cy@uni.example''"
  "plain_address ''ann@UNI.example'' = Some ''ann@uni.example''"
  "plain_address ''Ann@uni.example'' = Some ''Ann@uni.example''"
  "plain_address ''ann@uni.example'' = Some ''ann@uni.example''"
  "plain_address ''not-an-email'' = None"
  by (simp_all add: plain_address_def lower_ascii_def)

text \<open>
  C4, as the code has it. For every name and email, the request to create a student
  first validates the email as an \<open>EmailStr\<close>. A string that the validation rejects
  raises the validation error, the handler is not called and the store is as it was. A
  string that it accepts is replaced by the validated address, which need not be the
  string given (its domain is in lower case). Then \<open>create_student\<close> raises the
  exception of status 400 when a stored student has the validated address as email,
  compared as strings and so with upper and lower case distinct, and leaves the store as
  it was. Otherwise it stores the student after the others and returns the new row: the
  name of the input, the validated address as email, and the identity that the store
  has assigned.
\<close>

theorem post_students_spec:
  "post_students rt d n e =
     (case EmailStr rt e of
        None \<Rightarrow> (Inl RequestValidationError, d)
      | Some v \<Rightarrow>
          if \<exists>r\<in>set (students d). email r = v
          then (Inl (HTTPException 400 ''Email already exists''), d)
          else (Inr \<lparr>name_Student = n, email = v, id_Student = student_seq d\<rparr>,
                d\<lparr>students := students d @
                      [\<lparr>name_Student = n, email = v, id_Student = student_seq d\<rparr>],
                  student_seq := student_seq d + 1\<rparr>))"
  by (rule post_students_result)

text \<open>
  Ann's email is taken. The same local part with a capital A is another email, and its
  student gets the next identity, 3. A string with no \<open>@\<close> is rejected and nothing is
  stored.
\<close>

theorem post_students_spec_witness:
  "post_students example_runtime example_db ''Cy'' ''ann@uni.example''
     = (Inl (HTTPException 400 ''Email already exists''), example_db) \<and>
   fst (post_students example_runtime example_db ''Cy'' ''Ann@uni.example'')
     = Inr \<lparr>name_Student = ''Cy'', email = ''Ann@uni.example'', id_Student = 3\<rparr> \<and>
   length (students (snd (post_students example_runtime example_db ''Cy'' ''Ann@uni.example'')))
     = 3 \<and>
   post_students example_runtime example_db ''Cy'' ''not-an-email''
     = (Inl RequestValidationError, example_db)"
  using post_students_spec [of example_runtime example_db "''Cy''" "''ann@uni.example''"]
    post_students_spec [of example_runtime example_db "''Cy''" "''Ann@uni.example''"]
    post_students_spec [of example_runtime example_db "''Cy''" "''not-an-email''"]
  by (simp add: example_runtime_def plain_address_examples example_db_def)

text \<open>
  The email of the record returned is not always the email of the input, and the
  conflict is not always with a stored email equal to the input: \<open>cy@UNI.Example\<close> is
  stored and returned as \<open>cy@uni.example\<close>, and \<open>ann@UNI.example\<close>, which is the email
  of no stored student, is refused because \<open>ann@uni.example\<close> is stored.
\<close>

theorem post_students_email_counterexample:
  "fst (post_students example_runtime example_db ''Cy'' ''cy@UNI.Example'')
     = Inr \<lparr>name_Student = ''Cy'', email = ''cy@uni.example'', id_Student = 3\<rparr> \<and>
   ''cy@uni.example'' \<noteq> ''cy@UNI.Example'' \<and>
   fst (post_students example_runtime example_db ''Di'' ''ann@UNI.example'')
     = Inl (HTTPException 400 ''Email already exists'') \<and>
   \<not> (\<exists>r\<in>set (students example_db). email r = ''ann@UNI.example'')"
  by (simp add: post_students_result example_runtime_def plain_address_examples example_db_def)

lemma delete_student_result:
  "delete_student d i =
     (Inr [(''message'', Str ''Student deleted'')],
      d\<lparr>enrollments := filter (\<lambda>r. student_id r \<noteq> i) (enrollments d),
        students := filter (\<lambda>r. id_Student r \<noteq> i) (students d)\<rparr>)"
  by (simp add: delete_student_def delete_rows_def Let_def)

text \<open>
  After \<open>delete_student\<close> the store holds no enrollment and no student of that
  identity, every other row is kept, and a student that does not exist is no error.
\<close>

lemma delete_student_rows:
  "(\<forall>r\<in>set (enrollments (snd (delete_student d i))). student_id r \<noteq> i) \<and>
   (\<forall>r\<in>set (students (snd (delete_student d i))). id_Student r \<noteq> i) \<and>
   select_rows (\<lambda>r. student_id r = i) (enrollments (snd (delete_student d i))) = []"
  by (simp add: delete_student_result select_rows_empty_iff)

lemma delete_student_absent:
  "\<forall>r\<in>set (enrollments d). student_id r \<noteq> i \<Longrightarrow>
   \<forall>r\<in>set (students d). id_Student r \<noteq> i \<Longrightarrow>
   delete_student d i = (Inr [(''message'', Str ''Student deleted'')], d)"
  by (simp add: delete_student_result filter_id_conv)

section \<open>Enrollments\<close>

lemma create_enrollment_no_student:
  "\<not> (\<exists>s\<in>set (students d). id_Student s = student_id e) \<Longrightarrow>
   create_enrollment d e = (Inl (HTTPException 404 ''Student not found''), d)"
  by (simp add: create_enrollment_def select_rows_empty_iff Let_def)

lemma create_enrollment_no_course:
  "\<exists>s\<in>set (students d). id_Student s = student_id e \<Longrightarrow>
   \<not> (\<exists>c\<in>set (courses d). id_Course c = course_id e) \<Longrightarrow>
   create_enrollment d e = (Inl (HTTPException 404 ''Course not found''), d)"
  by (simp add: create_enrollment_def select_rows_empty_iff Let_def)

lemma create_enrollment_duplicate:
  "\<exists>s\<in>set (students d). id_Student s = student_id e \<Longrightarrow>
   \<exists>c\<in>set (courses d). id_Course c = course_id e \<Longrightarrow>
   \<exists>r\<in>set (enrollments d). key r = key e \<Longrightarrow>
   create_enrollment d e = (Inl (HTTPException 400 ''Student already enrolled in this course''), d)"
  by (simp add: create_enrollment_def select_rows_empty_iff Let_def)

lemma create_enrollment_inserts:
  "\<exists>s\<in>set (students d). id_Student s = student_id e \<Longrightarrow>
   \<exists>c\<in>set (courses d). id_Course c = course_id e \<Longrightarrow>
   \<not> (\<exists>r\<in>set (enrollments d). key r = key e) \<Longrightarrow>
   create_enrollment d e = (Inr e, d\<lparr>enrollments := enrollments d @ [e]\<rparr>)"
  by (simp add: create_enrollment_def select_rows_empty_iff insert_enrollment_def
      first_row_singleton Let_def)

text \<open>
  C2. For every enrollment to create, \<open>create_enrollment\<close> raises the exception of
  status 404 when no student has its \<open>student_id\<close>, and, the student being there, when
  no course has its \<open>course_id\<close>: the student is looked at first. With both there, it
  raises the exception of status 400 when an enrollment of the same pair of keys is
  stored. Otherwise it stores the enrollment after the others and returns it as stored.
  An exception leaves the store as it was.
\<close>

theorem create_enrollment_spec:
  "create_enrollment d e =
     (if \<not> (\<exists>s\<in>set (students d). id_Student s = student_id e)
      then (Inl (HTTPException 404 ''Student not found''), d)
      else if \<not> (\<exists>c\<in>set (courses d). id_Course c = course_id e)
      then (Inl (HTTPException 404 ''Course not found''), d)
      else if \<exists>r\<in>set (enrollments d). student_id r = student_id e \<and> course_id r = course_id e
      then (Inl (HTTPException 400 ''Student already enrolled in this course''), d)
      else (Inr e, d\<lparr>enrollments := enrollments d @ [e]\<rparr>))"
  using create_enrollment_no_student [of d e] create_enrollment_no_course [of d e]
    create_enrollment_duplicate [of d e] create_enrollment_inserts [of d e]
  by (simp split: if_splits)

text \<open>
  Neither student 9 nor course 9 exists: the student is reported. Course 9 alone is
  missing: the course is reported. Student 1 has course 1 already. Student 2 can take
  course 2, with no grade yet.
\<close>

theorem create_enrollment_spec_witness:
  "create_enrollment example_db \<lparr>student_id = 9, course_id = 9, grade = None\<rparr>
     = (Inl (HTTPException 404 ''Student not found''), example_db) \<and>
   create_enrollment example_db \<lparr>student_id = 1, course_id = 9, grade = None\<rparr>
     = (Inl (HTTPException 404 ''Course not found''), example_db) \<and>
   create_enrollment example_db \<lparr>student_id = 1, course_id = 1, grade = Some 2\<rparr>
     = (Inl (HTTPException 400 ''Student already enrolled in this course''), example_db) \<and>
   create_enrollment example_db \<lparr>student_id = 2, course_id = 2, grade = None\<rparr>
     = (Inr \<lparr>student_id = 2, course_id = 2, grade = None\<rparr>,
        example_db\<lparr>enrollments := enrollments example_db
           @ [\<lparr>student_id = 2, course_id = 2, grade = None\<rparr>]\<rparr>)"
  using create_enrollment_spec [of example_db "\<lparr>student_id = 9, course_id = 9, grade = None\<rparr>"]
    create_enrollment_spec [of example_db "\<lparr>student_id = 1, course_id = 9, grade = None\<rparr>"]
    create_enrollment_spec [of example_db "\<lparr>student_id = 1, course_id = 1, grade = Some 2\<rparr>"]
    create_enrollment_spec [of example_db "\<lparr>student_id = 2, course_id = 2, grade = None\<rparr>"]
  by (simp add: example_db_def)

text \<open>
  C7. For every enrollment to create whose \<open>student_id\<close> is the identity of no student,
  whatever its \<open>course_id\<close>, \<open>create_enrollment\<close> raises the exception of status 404
  and the store after it is the store before it: no enrollment has been added.
\<close>

theorem create_enrollment_unknown_student:
  "\<not> (\<exists>s\<in>set (students d). id_Student s = student_id e) \<Longrightarrow>
   fst (create_enrollment d e) = Inl (HTTPException 404 ''Student not found'') \<and>
   snd (create_enrollment d e) = d \<and>
   enrollments (snd (create_enrollment d e)) = enrollments d"
  by (simp add: create_enrollment_no_student)

text \<open>Course 1 exists, student 9 does not.\<close>

theorem create_enrollment_unknown_student_witness:
  "\<not> (\<exists>s\<in>set (students example_db). id_Student s = 9) \<and>
   (\<exists>c\<in>set (courses example_db). id_Course c = 1) \<and>
   fst (create_enrollment example_db \<lparr>student_id = 9, course_id = 1, grade = Some 4\<rparr>)
     = Inl (HTTPException 404 ''Student not found'') \<and>
   snd (create_enrollment example_db \<lparr>student_id = 9, course_id = 1, grade = Some 4\<rparr>)
     = example_db \<and>
   length (enrollments (snd (create_enrollment example_db
     \<lparr>student_id = 9, course_id = 1, grade = Some 4\<rparr>))) = 4"
proof -
  have absent: "\<not> (\<exists>s\<in>set (students example_db).
      id_Student s = student_id \<lparr>student_id = 9, course_id = 1, grade = Some 4\<rparr>)"
    by (simp add: example_db_def)
  have rows: "length (enrollments example_db) = 4"
    "\<exists>c\<in>set (courses example_db). id_Course c = 1"
    by (simp_all add: example_db_def)
  show ?thesis
    using create_enrollment_unknown_student [OF absent] absent rows
    by simp
qed

section \<open>Listing enrollments\<close>

text \<open>
  What \<open>get_enrollments\<close> returns for any pair of arguments: a filter is applied for
  an argument that passes the truth test, and for no other.
\<close>

lemma get_enrollments_filters:
  "get_enrollments d s c =
     (Inr (filter (\<lambda>r. (truthy s \<longrightarrow> Some (student_id r) = s) \<and>
                        (truthy c \<longrightarrow> Some (course_id r) = c)) (enrollments d)), d)"
  by (cases s; cases c) (auto simp: get_enrollments_def select_rows_def Let_def intro: filter_cong)

text \<open>
  With no argument equal to 0, the rows returned are those that match every argument
  given: both filters together, one alone, or none.
\<close>

lemma get_enrollments_nonzero:
  "s \<noteq> Some 0 \<Longrightarrow> c \<noteq> Some 0 \<Longrightarrow>
   get_enrollments d s c =
     (Inr (filter (\<lambda>r. (s \<noteq> None \<longrightarrow> Some (student_id r) = s) \<and>
                        (c \<noteq> None \<longrightarrow> Some (course_id r) = c)) (enrollments d)), d)"
  by (cases s; cases c) (auto simp: get_enrollments_filters intro: filter_cong)

text \<open>
  C3, at an input where the code departs from it. The query for the enrollments of
  student 0 is given a \<open>student_id\<close>, and no stored enrollment has the \<open>student_id\<close> 0,
  so the rows that match the filter are none; \<open>get_enrollments\<close> returns all four
  rows of the store.
\<close>

theorem get_enrollments_student_zero:
  "fst (get_enrollments example_db (Some 0) None) = Inr (enrollments example_db) \<and>
   length (enrollments example_db) = 4 \<and>
   filter (\<lambda>r. student_id r = 0) (enrollments example_db) = [] \<and>
   fst (get_enrollments example_db (Some 0) (Some 1))
     = Inr (filter (\<lambda>r. course_id r = 1) (enrollments example_db)) \<and>
   filter (\<lambda>r. student_id r = 0 \<and> course_id r = 1) (enrollments example_db) = []"
  by (simp add: get_enrollments_filters example_db_def)

text \<open>
  C10. An argument 0 of \<open>get_enrollments\<close> is an argument not given: with
  \<open>student_id\<close> 0 the result is that of the query without \<open>student_id\<close>, with
  \<open>course_id\<close> 0 that of the query without \<open>course_id\<close>, whatever the other
  argument is, and with both 0 every row is returned.
\<close>

theorem get_enrollments_zero_as_absent:
  "get_enrollments d (Some 0) c = get_enrollments d None c \<and>
   get_enrollments d s (Some 0) = get_enrollments d s None \<and>
   get_enrollments d (Some 0) (Some 0) = (Inr (enrollments d), d)"
  by (simp add: get_enrollments_filters)

text \<open>
  On the example store, \<open>course_id\<close> 0 with \<open>student_id\<close> 2 gives the one enrollment
  of student 2, as the query for student 2 alone does.
\<close>

theorem get_enrollments_zero_as_absent_witness:
  "fst (get_enrollments example_db (Some 2) (Some 0))
     = Inr [\<lparr>student_id = 2, course_id = 1, grade = Some 1\<rparr>] \<and>
   fst (get_enrollments example_db (Some 2) None)
     = Inr [\<lparr>student_id = 2, course_id = 1, grade = Some 1\<rparr>] \<and>
   fst (get_enrollments example_db (Some 0) (Some 0)) = Inr (enrollments example_db)"
proof -
  have "fst (get_enrollments example_db (Some 2) None)
      = Inr [\<lparr>student_id = 2, course_id = 1, grade = Some 1\<rparr>]"
    by (simp add: get_enrollments_filters example_db_def)
  then show ?thesis
    using get_enrollments_zero_as_absent [of example_db None "Some 2"]
    by simp
qed

section \<open>Updating a grade\<close>

lemma update_grade_found:
  fixes d :: "'f db"
  assumes "\<exists>r\<in>set (enrollments d). student_id r = s \<and> course_id r = c"
  shows "update_grade d s c g =
     (Inr \<lparr>student_id = s, course_id = c, grade = Some g\<rparr>,
      d\<lparr>enrollments := map (\<lambda>r. if student_id r = s \<and> course_id r = c
                                  then r\<lparr>grade := Some g\<rparr> else r) (enrollments d)\<rparr>)"
proof -
  let ?p = "\<lambda>r::'f Enrollment. student_id r = s \<and> course_id r = c"
  let ?f = "\<lambda>r::'f Enrollment. r\<lparr>grade := Some g\<rparr>"
  from assms obtain r where r: "?p r"
    and fr: "first_row (fst (update_rows ?p ?f (enrollments d))) = Inr (?f r)"
    using update_rows_first [of "enrollments d" ?p ?f] by blast
  from r have "?f r = \<lparr>student_id = s, course_id = c, grade = Some g\<rparr>"
    by (cases r) simp
  with fr have "first_row (fst (update_rows ?p ?f (enrollments d)))
      = Inr \<lparr>student_id = s, course_id = c, grade = Some g\<rparr>"
    by simp
  moreover have "snd (update_rows ?p ?f (enrollments d))
      = map (\<lambda>r. if ?p r then ?f r else r) (enrollments d)"
    by (simp add: update_rows_def)
  moreover from assms have "select_rows ?p (enrollments d) \<noteq> []"
    by (simp add: select_rows_empty_iff)
  ultimately show ?thesis
    by (simp add: update_grade_def Let_def split_beta)
qed

lemma update_grade_missing:
  "\<not> (\<exists>r\<in>set (enrollments d). student_id r = s \<and> course_id r = c) \<Longrightarrow>
   update_grade d s c g = (Inl (HTTPException 404 ''Enrollment not found''), d)"
  by (simp add: update_grade_def select_rows_empty_iff Let_def)

lemma update_grade_keys:
  "map key (enrollments (snd (update_grade d s c g))) = map key (enrollments d)"
  by (cases "\<exists>r\<in>set (enrollments d). student_id r = s \<and> course_id r = c")
     (simp_all add: update_grade_found update_grade_missing comp_def)

text \<open>
  C6. For every \<open>student_id\<close>, \<open>course_id\<close> and grade, \<open>update_grade\<close> raises the
  exception of status 404 when no enrollment has that pair of keys, and leaves the store
  as it was. Otherwise it returns the enrollment of that pair with the grade given, as
  given, and in the store it has written that grade into the enrollment of that pair and
  changed nothing else: every other row is as it was, and the keys of all rows, in their
  order, are the same as before.
\<close>

theorem update_grade_spec:
  "update_grade d s c g =
     (if \<exists>r\<in>set (enrollments d). student_id r = s \<and> course_id r = c
      then (Inr \<lparr>student_id = s, course_id = c, grade = Some g\<rparr>,
            d\<lparr>enrollments := map (\<lambda>r. if student_id r = s \<and> course_id r = c
                                        then r\<lparr>grade := Some g\<rparr> else r) (enrollments d)\<rparr>)
      else (Inl (HTTPException 404 ''Enrollment not found''), d))
   \<and> map (\<lambda>r. (student_id r, course_id r)) (enrollments (snd (update_grade d s c g)))
       = map (\<lambda>r. (student_id r, course_id r)) (enrollments d)"
  using update_grade_found [of d s c g] update_grade_missing [of d s c g]
    update_grade_keys [of d s c g]
  by (simp split: if_splits)

text \<open>
  Student 1 gets 3.7 in course 2: the row returned has the grade 3.7, the three other
  rows are as before, and the average of student 1 is then 3.35. Student 2 is not
  enrolled in course 2.
\<close>

theorem update_grade_spec_witness:
  "fst (update_grade example_db 1 2 (37 / 10))
     = Inr \<lparr>student_id = 1, course_id = 2, grade = Some (37 / 10)\<rparr> \<and>
   enrollments (snd (update_grade example_db 1 2 (37 / 10)))
     = [\<lparr>student_id = 1, course_id = 1, grade = Some 3\<rparr>,
        \<lparr>student_id = 1, course_id = 2, grade = Some (37 / 10)\<rparr>,
        \<lparr>student_id = 1, course_id = 3, grade = None\<rparr>,
        \<lparr>student_id = 2, course_id = 1, grade = Some 1\<rparr>] \<and>
   fst (calculate_gpa example_runtime (snd (update_grade example_db 1 2 (37 / 10))) 1)
     = Inr [(''gpa'', Num (335 / 100))] \<and>
   update_grade example_db 2 2 4
     = (Inl (HTTPException 404 ''Enrollment not found''), example_db)"
  using update_grade_spec [of example_db 1 2 "37 / 10"] update_grade_spec [of example_db 2 2 4]
  by (simp add: example_db_def example_runtime_def calculate_gpa_result List.map_filter_simps
      exact_round_def round_half_even_def Let_def)

section \<open>Deleting an enrollment\<close>

lemma delete_enrollment_absent:
  "\<not> (\<exists>r\<in>set (enrollments d). student_id r = s \<and> course_id r = c) \<Longrightarrow>
   delete_enrollment d s c = (Inr [(''message'', Str ''Enrollment deleted'')], d)"
proof -
  assume "\<not> (\<exists>r\<in>set (enrollments d). student_id r = s \<and> course_id r = c)"
  then have "filter (\<lambda>r. \<not> (student_id r = s \<and> course_id r = c)) (enrollments d)
      = enrollments d"
    by (simp add: filter_id_conv)
  then show ?thesis
    by (simp add: delete_enrollment_def delete_rows_def)
qed

text \<open>
  C9. For every \<open>student_id\<close> and \<open>course_id\<close>, \<open>delete_enrollment\<close> raises nothing
  and returns the message \<open>Enrollment deleted\<close>. The store after it has no enrollment of
  that pair of keys and has every other row, in order; when no enrollment has that pair,
  the store after it is the store before it.
\<close>

theorem delete_enrollment_spec:
  "delete_enrollment d s c =
     (Inr [(''message'', Str ''Enrollment deleted'')],
      d\<lparr>enrollments := filter (\<lambda>r. \<not> (student_id r = s \<and> course_id r = c)) (enrollments d)\<rparr>)
   \<and> \<not> (\<exists>r\<in>set (enrollments (snd (delete_enrollment d s c))).
          student_id r = s \<and> course_id r = c)
   \<and> (\<not> (\<exists>r\<in>set (enrollments d). student_id r = s \<and> course_id r = c)
        \<longrightarrow> delete_enrollment d s c = (Inr [(''message'', Str ''Enrollment deleted'')], d))"
  using delete_enrollment_absent [of d s c]
  by (auto simp: delete_enrollment_def delete_rows_def)

text \<open>
  The enrollment of student 1 in course 2 is deleted and the three others stay; student
  5 has no enrollment in course 5, and deleting it is a success that changes nothing.
\<close>

theorem delete_enrollment_spec_witness:
  "fst (delete_enrollment example_db 1 2) = Inr [(''message'', Str ''Enrollment deleted'')] \<and>
   enrollments (snd (delete_enrollment example_db 1 2))
     = [\<lparr>student_id = 1, course_id = 1, grade = Some 3\<rparr>,
        \<lparr>student_id = 1, course_id = 3, grade = None\<rparr>,
        \<lparr>student_id = 2, course_id = 1, grade = Some 1\<rparr>] \<and>
   delete_enrollment example_db 5 5
     = (Inr [(''message'', Str ''Enrollment deleted'')], example_db)"
  using delete_enrollment_spec [of example_db 1 2] delete_enrollment_spec [of example_db 5 5]
  by (simp add: example_db_def)

section \<open>Deleting a student\<close>

text \<open>
  For an identity other than 0, the query for the enrollments of a deleted student
  returns no row.
\<close>

lemma delete_student_then_query:
  "i \<noteq> 0 \<Longrightarrow> fst (get_enrollments (snd (delete_student d i)) (Some i) None) = Inr []"
  by (simp add: get_enrollments_filters delete_student_result filter_empty_conv)

text \<open>
  C5, at an input where the code departs from it. \<open>delete_student\<close> with the identity
  0 returns its message and leaves no enrollment of student 0 in the store; the query
  for the enrollments of student 0 that follows does not return the empty list: it
  returns the four enrollments of the other students.
\<close>

theorem delete_student_zero_then_query:
  "fst (delete_student example_db 0) = Inr [(''message'', Str ''Student deleted'')] \<and>
   filter (\<lambda>r. student_id r = 0) (enrollments (snd (delete_student example_db 0))) = [] \<and>
   fst (get_enrollments (snd (delete_student example_db 0)) (Some 0) None)
     = Inr (enrollments example_db) \<and>
   fst (get_enrollments (snd (delete_student example_db 0)) (Some 0) None) \<noteq> Inr []"
  by (simp add: get_enrollments_filters delete_student_result example_db_def)

section \<open>One enrollment for a pair of keys\<close>

lemma create_student_enrollments: "enrollments (snd (create_student d s)) = enrollments d"
  by (simp add: create_student_def insert_student_def Let_def)

lemma post_students_enrollments: "enrollments (snd (post_students rt d n e)) = enrollments d"
  by (simp add: post_students_def create_student_enrollments split: option.splits)

lemma create_course_enrollments: "enrollments (snd (create_course d c)) = enrollments d"
  by (simp add: create_course_def insert_course_def Let_def)

lemma delete_student_unique:
  "unique_enrollments d \<Longrightarrow> unique_enrollments (snd (delete_student d i))"
  by (simp add: unique_enrollments_def delete_student_def distinct_keys_delete_rows Let_def)

lemma delete_course_unique:
  "unique_enrollments d \<Longrightarrow> unique_enrollments (snd (delete_course d i))"
  by (simp add: unique_enrollments_def delete_course_def distinct_keys_delete_rows Let_def)

lemma delete_enrollment_unique:
  "unique_enrollments d \<Longrightarrow> unique_enrollments (snd (delete_enrollment d s c))"
  by (simp add: unique_enrollments_def delete_enrollment_def distinct_keys_delete_rows)

lemma update_grade_unique:
  "unique_enrollments d \<Longrightarrow> unique_enrollments (snd (update_grade d s c g))"
  by (simp add: unique_enrollments_def update_grade_keys)

text \<open>
  The check for a duplicate is what keeps the invariant: the enrollment is stored only
  when no stored row has its pair of keys.
\<close>

lemma create_enrollment_unique:
  assumes "unique_enrollments d"
  shows "unique_enrollments (snd (create_enrollment d e))"
proof (cases "select_rows (\<lambda>r. student_id r = student_id e \<and> course_id r = course_id e)
                (enrollments d) = []")
  case True
  then have "key e \<notin> set (map key (enrollments d))"
    by (auto simp: select_rows_empty_iff)
  with assms have "distinct (map key (enrollments d @ [e]))"
    by (simp add: unique_enrollments_def)
  with assms True show ?thesis
    by (simp add: create_enrollment_def insert_enrollment_def unique_enrollments_def Let_def)
next
  case False
  with assms show ?thesis
    by (simp add: create_enrollment_def Let_def)
qed

lemma handle_unique: "unique_enrollments d \<Longrightarrow> unique_enrollments (handle rt d r)"
proof (cases r)
  case (CreateStudent n e)
  assume "unique_enrollments d"
  then show ?thesis
    by (simp add: CreateStudent unique_enrollments_def post_students_enrollments)
next
  case (CreateCourse c)
  assume "unique_enrollments d"
  then show ?thesis
    by (simp add: CreateCourse unique_enrollments_def create_course_enrollments)
qed (simp_all add: delete_student_unique delete_course_unique delete_enrollment_unique
      update_grade_unique create_enrollment_unique get_students_def get_courses_def
      get_enrollments_def calculate_gpa_def Let_def split: sum.splits)

lemma run_unique: "unique_enrollments d \<Longrightarrow> unique_enrollments (run rt d rs)"
  unfolding run_def
  by (induction rs arbitrary: d) (simp_all add: handle_unique)

lemma empty_db_unique: "unique_enrollments empty_db"
  by (simp add: unique_enrollments_def empty_db_def)

text \<open>
  C8. A store with at most one enrollment for a pair of keys has at most one after any
  request, and so after any sequence of requests served one after the other; the empty
  store is such a store, so every store reached from it by requests is one.
\<close>

theorem unique_enrollments_reachable:
  "unique_enrollments (run rt empty_db rs) \<and>
   (unique_enrollments d \<longrightarrow>
      unique_enrollments (handle rt d r) \<and> unique_enrollments (run rt d rs))"
  using run_unique [of empty_db rt rs] run_unique [of d rt rs] handle_unique [of d rt r]
    empty_db_unique
  by blast

text \<open>
  From the empty store: a student and a course are created and get the identity 1, the
  student is enrolled in the course, a second enrollment of the same pair is refused, and
  the grade is set. The store holds one enrollment, with the grade.
\<close>

theorem unique_enrollments_reachable_witness:
  "unique_enrollments (empty_db :: real db) \<and>
   enrollments (run example_runtime empty_db
     [CreateStudent ''Ann'' ''ann@uni.example'',
      CreateCourse \<lparr>name_Course = ''Logic'', instructor = ''Hall'', prerequisites = Some []\<rparr>,
      CreateEnrollment \<lparr>student_id = 1, course_id = 1, grade = None\<rparr>,
      CreateEnrollment \<lparr>student_id = 1, course_id = 1, grade = Some 2\<rparr>,
      UpdateGrade 1 1 4])
     = [\<lparr>student_id = 1, course_id = 1, grade = Some 4\<rparr>] \<and>
   unique_enrollments (run example_runtime empty_db
     [CreateStudent ''Ann'' ''ann@uni.example'',
      CreateCourse \<lparr>name_Course = ''Logic'', instructor = ''Hall'', prerequisites = Some []\<rparr>,
      CreateEnrollment \<lparr>student_id = 1, course_id = 1, grade = None\<rparr>,
      CreateEnrollment \<lparr>student_id = 1, course_id = 1, grade = Some 2\<rparr>,
      UpdateGrade 1 1 4]) \<and>
   unique_enrollments (handle example_runtime example_db
     (CreateEnrollment \<lparr>student_id = 2, course_id = 2, grade = None\<rparr>)) \<and>
   length (enrollments (handle example_runtime example_db
     (CreateEnrollment \<lparr>student_id = 2, course_id = 2, grade = None\<rparr>))) = 5"
proof -
  let ?rs = "[CreateStudent ''Ann'' ''ann@uni.example'',
      CreateCourse \<lparr>name_Course = ''Logic'', instructor = ''Hall'', prerequisites = Some []\<rparr>,
      CreateEnrollment \<lparr>student_id = 1, course_id = 1, grade = None\<rparr>,
      CreateEnrollment \<lparr>student_id = 1, course_id = 1, grade = Some 2\<rparr>,
      UpdateGrade 1 1 (4::real)]"
  let ?r = "CreateEnrollment \<lparr>student_id = 2, course_id = 2, grade = None :: real option\<rparr>"
  have start: "unique_enrollments (empty_db :: real db)" "unique_enrollments example_db"
    by (simp_all add: unique_enrollments_def empty_db_def example_db_def)
  have rows: "enrollments (run example_runtime empty_db ?rs)
      = [\<lparr>student_id = 1, course_id = 1, grade = Some 4\<rparr>]"
    by (simp add: run_def empty_db_def example_runtime_def plain_address_examples
        post_students_def create_student_def create_course_def
        create_enrollment_def update_grade_def insert_student_def insert_course_def
        insert_enrollment_def select_rows_def update_rows_def first_row_def Let_def)
  have more: "length (enrollments (handle example_runtime example_db ?r)) = 5"
    by (simp add: example_db_def create_enrollment_def insert_enrollment_def select_rows_def
        first_row_def Let_def)
  show ?thesis
    using unique_enrollments_reachable [of example_runtime ?rs example_db ?r] start rows more
    by simp
qed

end
